theory Spec2Isabelle
  imports Complex_Main
begin

section \<open>Numbers and rounding\<close>

text \<open>
  The services compute with Python floats. They are modelled as exact real numbers:
  comparisons, sums, products and quotients are the mathematical ones, and the binary
  representation error of a float is not part of the model. Division by zero, which
  Python raises as ZeroDivisionError, is a value of the error type below wherever the
  source does not guard it.

  \<^verbatim>\<open>round(x, n)\<close> rounds to \<open>n\<close> decimal places, a tie going to the even neighbour.
\<close>

datatype py_error = ZeroDivisionError | AttributeError | OverflowError

definition round_half_even :: "real \<Rightarrow> int" where
  "round_half_even x =
     (let f = \<lfloor>x\<rfloor>; d = x - of_int f
      in if d < 1 / 2 then f
         else if 1 / 2 < d then f + 1
         else if even f then f else f + 1)"

definition py_round :: "real \<Rightarrow> nat \<Rightarrow> real" where
  "py_round x n = of_int (round_half_even (x * 10 ^ n)) / 10 ^ n"

text \<open>
  The one place where the range of a float decides what the sizing functions do is the
  power \<^verbatim>\<open>volatility ** 2\<close>: Python raises OverflowError when the square is beyond the
  largest double, and the square of a tiny positive volatility is the float 0.0, by which
  the division that follows raises ZeroDivisionError. The range of a double is modelled
  here (a result of at least \<open>2^1024 - 2^970\<close> overflows, a result of at most \<open>2^-1075\<close>
  is 0.0); its precision is not.
\<close>

definition float_overflow_bound :: real where
  "float_overflow_bound = 2 ^ 1024 - 2 ^ 970"

definition float_zero_bound :: real where
  "float_zero_bound = 1 / 2 ^ 1075"

definition py_square :: "real \<Rightarrow> py_error + real" where
  "py_square x =
     (if float_overflow_bound \<le> x ^ 2 then Inl OverflowError
      else if x ^ 2 \<le> float_zero_bound then Inr 0
      else Inr (x ^ 2))"

text \<open>
  The expression \<^verbatim>\<open>edge / (volatility ** 2) if volatility > 0 else 0\<close> of both sizing
  functions.
\<close>

definition kelly_ratio :: "real \<Rightarrow> real \<Rightarrow> py_error + real" where
  "kelly_ratio edge volatility =
     (if 0 < volatility
      then (case py_square volatility of
              Inl e \<Rightarrow> Inl e
            | Inr square \<Rightarrow> if square = 0 then Inl ZeroDivisionError else Inr (edge / square))
      else Inr 0)"

section \<open>Risk Gate (services/risk\_manager.py)\<close>

text \<open>
  \<open>RiskManager\<close> holds the two fractions given to its constructor. The dictionaries it
  reads with \<^verbatim>\<open>.get(key, default)\<close> are records whose fields are optional, a missing key
  being \<open>None\<close>.
\<close>

record risk_manager =
  capital_floor_pct :: real
  max_daily_loss_pct :: real

definition default_risk_manager :: risk_manager where
  "default_risk_manager = \<lparr>capital_floor_pct = 97 / 100, max_daily_loss_pct = 15 / 1000\<rparr>"

record risk_metrics =
  total_equity :: "real option"
  max_equity :: "real option"
  equity_floor :: "real option"
  current_drawdown :: "real option"
  daily_pnl :: "real option"
  positions_value :: "real option"
  cash_balance :: "real option"
  timestamp :: nat

text \<open>
  The signal dictionary handed to \<open>validate_trade\<close> is the engine's enhanced analysis;
  the fields below are the keys that the risk gate and the decision cycle read from it.
\<close>

record portfolio_heat =
  heat_percent :: "real option"

record technical_indicators =
  ti_rsi :: "real option"
  ti_regime :: "string option"

record analysis =
  confidence :: "real option"
  buy_recommendation :: "bool option"
  an_portfolio_heat :: "portfolio_heat option"
  an_signal :: "string option"
  combined_confidence :: "real option"
  an_technical_indicators :: "technical_indicators option"
  an_regime :: "string option"
  ai_analysis :: "string option"

definition get_or :: "'a option \<Rightarrow> 'a \<Rightarrow> 'a" where
  "get_or v d = (case v of None \<Rightarrow> d | Some x \<Rightarrow> x)"

record floor_check =
  fc_equity_floor :: real
  fc_current_equity :: real
  fc_current_ratio :: real
  fc_floor_breach :: bool
  fc_buffer_percent :: real
  fc_allow_trading :: bool

definition check_capital_floor :: "risk_manager \<Rightarrow> real \<Rightarrow> real \<Rightarrow> floor_check" where
  "check_capital_floor self current_equity max_eq =
     (let equity_floor = max_eq * capital_floor_pct self;
          current_ratio = (if 0 < max_eq then current_equity / max_eq else 1);
          breach = (current_equity < equity_floor);
          buffer = (if 0 < equity_floor
                    then (current_equity - equity_floor) / equity_floor * 100 else 0)
      in \<lparr>fc_equity_floor = equity_floor,
          fc_current_equity = current_equity,
          fc_current_ratio = current_ratio,
          fc_floor_breach = breach,
          fc_buffer_percent = py_round buffer 2,
          fc_allow_trading = (\<not> breach)\<rparr>)"

record loss_check =
  lc_daily_pnl :: real
  lc_loss_percent :: real
  lc_max_allowed_loss :: real
  lc_loss_breach :: bool
  lc_allow_trading :: bool

definition check_daily_loss :: "risk_manager \<Rightarrow> real \<Rightarrow> real \<Rightarrow> loss_check" where
  "check_daily_loss self daily starting_equity =
     (let max_loss = starting_equity * max_daily_loss_pct self;
          loss_pct = (if 0 < starting_equity then daily / starting_equity * 100 else 0);
          breach = (daily < - max_loss)
      in \<lparr>lc_daily_pnl = daily,
          lc_loss_percent = py_round loss_pct 2,
          lc_max_allowed_loss = max_loss,
          lc_loss_breach = breach,
          lc_allow_trading = (\<not> breach)\<rparr>)"

definition get_rejection_reason :: "floor_check \<Rightarrow> loss_check \<Rightarrow> bool \<Rightarrow> bool \<Rightarrow> string" where
  "get_rejection_reason fc lc confidence_ok strong_signal =
     (if \<not> fc_allow_trading fc then ''Capital floor breach - trading halted''
      else if \<not> lc_allow_trading lc then ''Daily loss limit reached''
      else if \<not> confidence_ok then ''Signal confidence too low''
      else if \<not> strong_signal then ''No strong buy signal''
      else ''All checks passed'')"

record validation =
  approved :: bool
  v_floor_check :: bool
  v_loss_check :: bool
  v_confidence_check :: bool
  v_signal_check :: bool
  reason :: string

definition validate_trade :: "risk_manager \<Rightarrow> analysis \<Rightarrow> risk_metrics \<Rightarrow> validation" where
  "validate_trade self sig rm =
     (let fc = check_capital_floor self (get_or (total_equity rm) 0) (get_or (max_equity rm) 0);
          lc = check_daily_loss self (get_or (daily_pnl rm) 0) (get_or (max_equity rm) 0);
          confidence_ok = (60 \<le> get_or (confidence sig) 0);
          strong_signal = get_or (buy_recommendation sig) False;
          all_checks_pass =
            (fc_allow_trading fc \<and> lc_allow_trading lc \<and> confidence_ok \<and> strong_signal)
      in \<lparr>approved = all_checks_pass,
          v_floor_check = fc_allow_trading fc,
          v_loss_check = lc_allow_trading lc,
          v_confidence_check = confidence_ok,
          v_signal_check = strong_signal,
          reason = get_rejection_reason fc lc confidence_ok strong_signal\<rparr>)"

definition calculate_position_size :: "real \<Rightarrow> real \<Rightarrow> real \<Rightarrow> real \<Rightarrow> py_error + real" where
  "calculate_position_size signal_strength conf available_capital volatility =
     (let edge = signal_strength * (conf / 100);
          max_risk_per_trade = 2 / 100
      in case kelly_ratio edge volatility of
           Inl e \<Rightarrow> Inl e
         | Inr kelly_fraction \<Rightarrow>
             (let kelly_fraction = min (kelly_fraction * (25 / 100)) max_risk_per_trade;
                  position_size = available_capital * kelly_fraction;
                  position_size = max 10 (min position_size (available_capital * (5 / 100)))
              in Inr (py_round position_size 2)))"

section \<open>Advanced Risk Manager (services/advanced\_risk\_manager.py)\<close>

text \<open>
  \<open>calculate_optimal_position_size\<close> computes the Kelly fraction first, then returns 0
  when no heat budget is left. It divides by \<open>max_heat\<close> without a guard once some budget
  is left, so a zero \<open>max_heat\<close> with a negative \<open>current_heat\<close> raises.
\<close>

definition calculate_optimal_position_size ::
    "real \<Rightarrow> real \<Rightarrow> real \<Rightarrow> real \<Rightarrow> real \<Rightarrow> py_error + real" where
  "calculate_optimal_position_size signal_strength volatility equity current_heat max_heat =
     (let edge = signal_strength
      in case kelly_ratio edge volatility of
           Inl e \<Rightarrow> Inl e
         | Inr kelly_fraction \<Rightarrow>
             (let kelly_fraction = min (kelly_fraction * (25 / 100)) (2 / 100);
                  heat_available = max_heat - current_heat
              in if heat_available \<le> 0 then Inr 0
                 else if max_heat = 0 then Inl ZeroDivisionError
                 else
                   (let heat_adjustment = min (heat_available / max_heat) 1;
                        position_size = equity * kelly_fraction * heat_adjustment;
                        position_size = max 10 (min position_size (equity * (5 / 100)))
                    in Inr (py_round position_size 2))))"

text \<open>
  A position document as the engine stores it. \<open>symbol\<close>, \<open>quantity\<close>, \<open>avg_price\<close> and
  \<open>created_at\<close> are written at creation and read with \<^verbatim>\<open>position[...]\<close>; the others
  are read with a default. \<open>quantity\<close> is the capital committed, in quote currency;
  \<open>created_at\<close> is the creation time in seconds.
\<close>

record position =
  pos_symbol :: string
  pos_quantity :: real
  pos_avg_price :: real
  pos_current_price :: real
  pos_pnl :: "real option"
  pos_pnl_percent :: "real option"
  pos_entry_price :: "real option"
  pos_high_water_mark :: "real option"
  pos_created_at :: real

text \<open>
  The correlation of two return series is numpy's \<^verbatim>\<open>corrcoef\<close>, which is not code of this
  repository. It is modelled from numpy's documentation: the sample covariance divided by
  the two sample standard deviations, clipped to \<open>[-1, 1]\<close>. A float that is not a number
  (nan) is \<open>None\<close>: numpy returns it, without raising, when a return divides by a zero
  price or when a series has no variance.
\<close>

definition np_mean :: "real list \<Rightarrow> real" where
  "np_mean xs = sum_list xs / of_nat (length xs)"

definition np_cov :: "real list \<Rightarrow> real list \<Rightarrow> real" where
  "np_cov xs ys =
     sum_list (map (\<lambda>(x, y). (x - np_mean xs) * (y - np_mean ys)) (zip xs ys))
       / (of_nat (length xs) - 1)"

definition np_corrcoef :: "real list \<Rightarrow> real list \<Rightarrow> real option" where
  "np_corrcoef xs ys =
     (if np_cov xs xs = 0 \<or> np_cov ys ys = 0 then None
      else Some (max (- 1) (min 1
             (np_cov xs ys / sqrt (np_cov xs xs) / sqrt (np_cov ys ys)))))"

fun np_diff :: "real list \<Rightarrow> real list" where
  "np_diff (x # y # zs) = (y - x) # np_diff (y # zs)"
| "np_diff _ = []"

definition returns_of :: "real list \<Rightarrow> real list option" where
  "returns_of a =
     (if 0 \<in> set (butlast a) then None
      else Some (map (\<lambda>(d, p). d / p) (zip (np_diff a) (butlast a))))"

definition calculate_correlation :: "real list \<Rightarrow> real list \<Rightarrow> real option" where
  "calculate_correlation prices_a prices_b =
     (if length prices_a < 20 \<or> length prices_b < 20 then Some 0
      else
        (let n = min (min (length prices_a) (length prices_b)) 50;
             a = drop (length prices_a - n) prices_a;
             b = drop (length prices_b - n) prices_b
         in case (returns_of a, returns_of b) of
              (Some returns_a, Some returns_b) \<Rightarrow>
                (case np_corrcoef returns_a returns_b of
                   None \<Rightarrow> None
                 | Some correlation \<Rightarrow> Some (py_round correlation 3))
            | _ \<Rightarrow> None))"

record correlation_check =
  allowed :: bool
  max_correlation :: real
  correlated_with :: "string option"

text \<open>
  The loop of \<open>check_correlation_risk\<close> over the existing positions, with its two
  variables as the accumulator. A nan correlation compares false and is passed over.
\<close>

fun correlation_loop ::
    "string \<Rightarrow> real list \<Rightarrow> (string \<rightharpoonup> real list) \<Rightarrow> position list \<Rightarrow>
     real \<times> string option \<Rightarrow> real \<times> string option" where
  "correlation_loop new_symbol new_prices price_history [] acc = acc"
| "correlation_loop new_symbol new_prices price_history (pos # rest) (max_corr, corr_with) =
     (let symbol = pos_symbol pos
      in if symbol = new_symbol
         then correlation_loop new_symbol new_prices price_history rest (max_corr, corr_with)
         else
           (let existing_prices = get_or (price_history symbol) []
            in if length existing_prices < 20
               then correlation_loop new_symbol new_prices price_history rest (max_corr, corr_with)
               else
                 (case calculate_correlation new_prices existing_prices of
                    None \<Rightarrow>
                      correlation_loop new_symbol new_prices price_history rest (max_corr, corr_with)
                  | Some corr \<Rightarrow>
                      if \<bar>max_corr\<bar> < \<bar>corr\<bar>
                      then correlation_loop new_symbol new_prices price_history rest
                             (corr, Some symbol)
                      else correlation_loop new_symbol new_prices price_history rest
                             (max_corr, corr_with))))"

definition max_correlation_limit :: real where
  "max_correlation_limit = 7 / 10"

definition check_correlation_risk ::
    "string \<Rightarrow> position list \<Rightarrow> (string \<rightharpoonup> real list) \<Rightarrow> correlation_check" where
  "check_correlation_risk new_symbol existing_positions price_history =
     (if existing_positions = []
      then \<lparr>allowed = True, max_correlation = 0, correlated_with = None\<rparr>
      else
        (let new_prices = get_or (price_history new_symbol) []
         in if length new_prices < 20
            then \<lparr>allowed = True, max_correlation = 0, correlated_with = None\<rparr>
            else
              (let (max_corr, corr_with) =
                     correlation_loop new_symbol new_prices price_history existing_positions
                       (0, None)
               in \<lparr>allowed = (\<bar>max_corr\<bar> < max_correlation_limit),
                   max_correlation = max_corr,
                   correlated_with = corr_with\<rparr>)))"




section \<open>Multi-Timeframe Analyzer (services/multi\_timeframe\_analysis.py)\<close>

record timeframe =
  tf_trend :: string
  tf_strength :: real
  tf_rsi :: real
  tf_valid :: bool

record mtf_analysis =
  tf_5m :: timeframe
  tf_15m :: timeframe
  tf_1h :: timeframe
  tf_4h :: timeframe
  alignment :: string
  strength :: real

definition valid_trends :: "mtf_analysis \<Rightarrow> string list" where
  "valid_trends a = map tf_trend (filter tf_valid [tf_5m a, tf_15m a, tf_1h a, tf_4h a])"

definition calculate_alignment :: "mtf_analysis \<Rightarrow> string" where
  "calculate_alignment a =
     (let trends = valid_trends a
      in if trends = [] then ''none''
         else
           (let bullish_count = count_list trends ''bullish'';
                bearish_count = count_list trends ''bearish''
            in if 3 \<le> bullish_count then ''strong_bullish''
               else if 2 \<le> bullish_count then ''bullish''
               else if 3 \<le> bearish_count then ''strong_bearish''
               else if 2 \<le> bearish_count then ''bearish''
               else ''mixed''))"

record recommendation =
  action :: string
  rec_confidence :: real
  reasons :: "string list"

definition get_trading_recommendation :: "mtf_analysis \<Rightarrow> bool \<Rightarrow> recommendation" where
  "get_trading_recommendation mtf current_position =
     (let al = alignment mtf; st = strength mtf
      in if al = ''strong_bullish'' \<and> 3 < st
         then \<lparr>action = (if \<not> current_position then ''BUY'' else ''HOLD''),
               rec_confidence = min (70 + st * 3) 95,
               reasons = [''All timeframes bullish'']\<rparr>
         else if al = ''strong_bearish'' \<and> st < - 3
         then \<lparr>action = (if current_position then ''SELL'' else ''AVOID''),
               rec_confidence = min (70 + \<bar>st\<bar> * 3) 95,
               reasons = [''All timeframes bearish'']\<rparr>
         else if al = ''bullish'' \<and> 2 < st
         then \<lparr>action = (if \<not> current_position then ''BUY'' else ''HOLD''),
               rec_confidence = 60 + st * 2,
               reasons = [''Multiple timeframes bullish'']\<rparr>
         else if al = ''bearish'' \<and> st < - 2
         then \<lparr>action = (if current_position then ''SELL'' else ''AVOID''),
               rec_confidence = 60 + \<bar>st\<bar> * 2,
               reasons = [''Multiple timeframes bearish'']\<rparr>
         else \<lparr>action = ''HOLD'',
               rec_confidence = 40,
               reasons = [''Mixed timeframe signals - waiting for clarity'']\<rparr>)"

section \<open>Technical Signal Library (services/technical\_indicators.py)\<close>

text \<open>
  The periods are Python ints; they are natural numbers here. A period of 0 makes
  \<^verbatim>\<open>np.mean\<close> of an empty slice nan in the source, which the real-valued model does not
  represent; the theorems on MACD assume positive periods.
\<close>

definition calculate_ema :: "real list \<Rightarrow> nat \<Rightarrow> real" where
  "calculate_ema prices period =
     (if length prices < period then np_mean prices
      else
        (let multiplier = 2 / (of_nat period + 1);
             ema = np_mean (take period prices)
         in fold (\<lambda>price ema. price * multiplier + ema * (1 - multiplier))
              (drop period prices) ema))"

text \<open>
  The loop \<^verbatim>\<open>for i in range(slow, len(prices))\<close> of \<open>calculate_macd\<close>, appending the MACD
  line of the prefix \<^verbatim>\<open>prices[:i+1]\<close> to \<open>macd_values\<close>.
\<close>

fun macd_values_loop :: "real list \<Rightarrow> nat \<Rightarrow> nat \<Rightarrow> nat list \<Rightarrow> real list \<Rightarrow> real list" where
  "macd_values_loop prices fast slow [] macd_values = macd_values"
| "macd_values_loop prices fast slow (i # rest) macd_values =
     (let f = calculate_ema (take (i + 1) prices) fast;
          s = calculate_ema (take (i + 1) prices) slow
      in macd_values_loop prices fast slow rest (macd_values @ [f - s]))"

record macd_result =
  macd :: real
  macd_signal :: real
  histogram :: real

definition calculate_macd :: "real list \<Rightarrow> nat \<Rightarrow> nat \<Rightarrow> nat \<Rightarrow> macd_result" where
  "calculate_macd prices fast slow signal =
     (if length prices < slow + signal
      then \<lparr>macd = 0, macd_signal = 0, histogram = 0\<rparr>
      else
        (let ema_fast = calculate_ema prices fast;
             ema_slow = calculate_ema prices slow;
             macd_line = ema_fast - ema_slow;
             signal_line =
               (if slow * 2 \<le> length prices
                then
                  (let macd_values =
                         macd_values_loop prices fast slow [slow ..< length prices] []
                   in if signal \<le> length macd_values
                      then calculate_ema macd_values signal
                      else macd_line)
                else macd_line);
             hist = macd_line - signal_line
         in \<lparr>macd = py_round macd_line 2,
             macd_signal = py_round signal_line 2,
             histogram = py_round hist 2\<rparr>))"

text \<open>
  The quantities the MACD contract is stated with: the exponential moving average of a
  series by its recurrence, seeded with the mean of the first \<open>period\<close> points (of all
  points when there are fewer), and the trailing MACD-line series, the MACD line of every
  prefix of the prices that ends at index \<open>slow\<close> or later.
\<close>

function ema :: "nat \<Rightarrow> real list \<Rightarrow> real" where
  "ema period xs =
     (if length xs \<le> period then np_mean xs
      else 2 / (of_nat period + 1) * last xs + (1 - 2 / (of_nat period + 1)) * ema period (butlast xs))"
  by pat_completeness auto
termination
  by (relation "measure (\<lambda>(period, xs). length xs)") auto

definition macd_line_series :: "real list \<Rightarrow> nat \<Rightarrow> nat \<Rightarrow> real list" where
  "macd_line_series prices fast slow =
     map (\<lambda>i. ema fast (take (i + 1) prices) - ema slow (take (i + 1) prices))
       [slow ..< length prices]"

declare ema.simps [simp del]

section \<open>Decision Cycle Engine: risk snapshots (services/bot\_engine.py)\<close>

text \<open>
  The \<open>risk_metrics\<close> collection of one tenant, every query of the source being filtered
  by the tenant's id. The documents are kept in the order of their timestamps, oldest
  first, the clock being taken as monotone: \<^verbatim>\<open>find_one(sort=[("timestamp", -1)])\<close> is
  the last element and \<^verbatim>\<open>insert_one\<close> appends. A timestamp is a number of seconds since
  the epoch, in UTC, so that the start of the current day is the last multiple of 86400.
\<close>

definition today_start :: "nat \<Rightarrow> nat" where
  "today_start now = now - now mod 86400"

definition update_risk_metrics :: "position list \<Rightarrow> nat \<Rightarrow> risk_metrics list \<Rightarrow> risk_metrics list" where
  "update_risk_metrics positions now db =
     (let pos_value = sum_list (map pos_quantity positions);
          total_pnl = sum_list (map (\<lambda>p. get_or (pos_pnl p) 0) positions);
          prev_metrics = (if db = [] then None else Some (last db));
          (starting_equity, cash, max_eq) =
            (case prev_metrics of
               Some prev \<Rightarrow> (get_or (max_equity prev) 10000, get_or (cash_balance prev) 10000,
                              get_or (max_equity prev) 10000)
             | None \<Rightarrow> (10000, 10000, 10000));
          equity = cash + pos_value + total_pnl;
          max_eq = (if max_eq < equity then equity else max_eq);
          floor = max_eq * (97 / 100);
          drawdown = (if 0 < max_eq then (max_eq - equity) / max_eq * 100 else 0);
          daily_start_metrics = find (\<lambda>m. today_start now \<le> timestamp m) db;
          daily_start_equity =
            (case daily_start_metrics of
               Some m \<Rightarrow> get_or (total_equity m) starting_equity
             | None \<Rightarrow> starting_equity);
          daily = equity - daily_start_equity;
          new_metrics =
            \<lparr>total_equity = Some equity,
             max_equity = Some max_eq,
             equity_floor = Some floor,
             current_drawdown = Some drawdown,
             daily_pnl = Some daily,
             positions_value = Some pos_value,
             cash_balance = Some cash,
             timestamp = now\<rparr>
      in db @ [new_metrics])"

text \<open>
  The other writers of the collection: the sell path of the engine sets \<open>cash_balance\<close> in
  the latest document, and the API's read of the metrics inserts a default document when
  the tenant has none.
\<close>

definition set_cash_balance :: "real \<Rightarrow> risk_metrics list \<Rightarrow> risk_metrics list" where
  "set_cash_balance new_cash db =
     (if db = [] then [] else butlast db @ [(last db)\<lparr>cash_balance := Some new_cash\<rparr>])"

definition default_metrics :: "nat \<Rightarrow> risk_metrics" where
  "default_metrics now =
     \<lparr>total_equity = Some 10000, max_equity = Some 10000, equity_floor = Some 9700,
      current_drawdown = Some 0, daily_pnl = Some 0, positions_value = Some 0,
      cash_balance = Some 10000, timestamp = now\<rparr>"

definition get_risk_metrics :: "nat \<Rightarrow> risk_metrics list \<Rightarrow> risk_metrics list" where
  "get_risk_metrics now db = (if db = [] then [default_metrics now] else db)"

datatype metrics_event = Tick "position list" nat | CashUpdate real | ApiRead nat

fun apply_event :: "metrics_event \<Rightarrow> risk_metrics list \<Rightarrow> risk_metrics list" where
  "apply_event (Tick positions now) db = update_risk_metrics positions now db"
| "apply_event (CashUpdate new_cash) db = set_cash_balance new_cash db"
| "apply_event (ApiRead now) db = get_risk_metrics now db"

text \<open>
  \<open>max_equity\<close> as the engine reads it from a stored document, and the total equity that
  an update computes: the latest cash balance, plus the capital committed to the open
  positions, plus their unrealized P&L.
\<close>

definition max_equity_of :: "risk_metrics \<Rightarrow> real" where
  "max_equity_of m = get_or (max_equity m) 10000"

definition new_total_equity :: "position list \<Rightarrow> risk_metrics list \<Rightarrow> real" where
  "new_total_equity positions db =
     (if db = [] then 10000 else get_or (cash_balance (last db)) 10000)
       + sum_list (map pos_quantity positions)
       + sum_list (map (\<lambda>p. get_or (pos_pnl p) 0) positions)"

section \<open>Decision Cycle Engine: entry and exit (services/bot\_engine.py)\<close>

text \<open>
  The state the engine works on, for one tenant: the collections of positions, trades and
  risk snapshots, the market orders handed to the execution collaborator, and the lines
  written to the log. A sell reason and a log line are values that carry the numbers the
  source formats into their text.
\<close>

datatype sell_reason =
    NoReason
  | TrailingStop real
  | ProfitTarget
  | StopLoss
  | TechnicalSell real
  | RsiOverbought real
  | RegimeChange string
  | CombinedSell
  | TimeBasedExit

datatype trade_reasoning = AiReasoning "string option" | ExitReasoning sell_reason

record trade =
  tr_symbol :: string
  tr_side :: string
  tr_order_type :: string
  tr_quantity :: real
  tr_filled_price :: real
  tr_status :: string
  tr_ai_reasoning :: trade_reasoning
  tr_regime :: "string option"
  tr_pnl :: "real option"
  tr_pnl_percent :: "real option"
  tr_created_at :: real

record order_result =
  success :: bool
  filled_price :: "real option"

record market_order =
  mo_symbol :: string
  mo_side :: string
  mo_quantity :: real

datatype log_entry =
    TradeNotApproved string string
  | NoBuyRecommendation string
  | HeatTooHigh string real
  | HighCorrelation string real "string option"
  | PositionTooSmall string real
  | PositionClosed string real real real sell_reason
  | Holding string real real

record tech_signals =
  ts_signal :: "string option"
  ts_confidence :: "real option"

record engine_state =
  db_positions :: "position list"
  db_trades :: "trade list"
  db_risk_metrics :: "risk_metrics list"
  submitted_orders :: "market_order list"
  log :: "log_entry list"

text \<open>
  The engine object: its risk manager, its price-history cache, and the execution
  collaborator as a function from the order to its result.
\<close>

record bot_engine =
  be_risk_manager :: risk_manager
  price_history_cache :: "string \<rightharpoonup> real list"
  place_market_order :: "string \<Rightarrow> string \<Rightarrow> real \<Rightarrow> order_result"

text \<open>
  A step of the engine returns the new state, or the Python exception it raised together
  with the state reached when it was raised.

  In \<open>check_buy_signal\<close> the statements that place the order, record the trade and the
  position and lower the cash balance are written inside the block of
  \<^verbatim>\<open>if position_size < 10:\<close>, after its \<^verbatim>\<open>return\<close>. They are never executed, and
  the \<^verbatim>\<open>else\<close> of that test logs "Trade not approved" with the validation's reason.
\<close>

type_synonym engine_result = "py_error \<times> engine_state + engine_state"

definition check_buy_signal ::
    "bot_engine \<Rightarrow> string \<Rightarrow> analysis \<Rightarrow> risk_metrics \<Rightarrow> real \<Rightarrow> position list \<Rightarrow>
     engine_state \<Rightarrow> engine_result" where
  "check_buy_signal self symbol an rm current_price all_positions st =
     (let validation = validate_trade (be_risk_manager self) an rm
      in if \<not> approved validation
         then Inr (st\<lparr>log := log st @ [TradeNotApproved symbol (reason validation)]\<rparr>)
         else if \<not> get_or (buy_recommendation an) False
         then Inr (st\<lparr>log := log st @ [NoBuyRecommendation symbol]\<rparr>)
         else
           (let heat = get_or (an_portfolio_heat an) \<lparr>heat_percent = None\<rparr>
            in if 15 \<le> get_or (heat_percent heat) 0
               then Inr (st\<lparr>log := log st @ [HeatTooHigh symbol (get_or (heat_percent heat) 0)]\<rparr>)
               else
                 (let correlation_check =
                        check_correlation_risk symbol all_positions (price_history_cache self)
                  in if \<not> allowed correlation_check
                     then Inr (st\<lparr>log := log st @
                            [HighCorrelation symbol (max_correlation correlation_check)
                               (correlated_with correlation_check)]\<rparr>)
                     else
                       (let current_heat = get_or (heat_percent heat) 0 / 100
                        in case calculate_optimal_position_size
                                  (get_or (confidence an) 0 / 100) (10 / 100)
                                  (get_or (total_equity rm) 10000) current_heat (15 / 100) of
                             Inl e \<Rightarrow> Inl (e, st)
                           | Inr position_size \<Rightarrow>
                               if position_size < 10
                               then Inr (st\<lparr>log := log st @ [PositionTooSmall symbol position_size]\<rparr>)
                               else Inr (st\<lparr>log := log st @
                                      [TradeNotApproved symbol (reason validation)]\<rparr>)))))"

text \<open>
  \<^verbatim>\<open>update_one\<close> and \<^verbatim>\<open>delete_one\<close> of a collection act on the first matching document.
\<close>

fun update_one :: "('a \<Rightarrow> bool) \<Rightarrow> ('a \<Rightarrow> 'a) \<Rightarrow> 'a list \<Rightarrow> 'a list" where
  "update_one P f [] = []"
| "update_one P f (x # xs) = (if P x then f x # xs else x # update_one P f xs)"

fun delete_one :: "('a \<Rightarrow> bool) \<Rightarrow> 'a list \<Rightarrow> 'a list" where
  "delete_one P [] = []"
| "delete_one P (x # xs) = (if P x then xs else x # delete_one P xs)"

text \<open>
  The exit rules of \<open>check_sell_signal\<close>: seven rules chained by \<^verbatim>\<open>elif\<close>, the seventh
  with a nested test, and then the time-based rule as an \<^verbatim>\<open>if\<close> of its own, which
  assigns \<open>should_sell\<close> and \<open>sell_reason\<close> again whatever the chain decided.
\<close>

definition exit_rules ::
    "real \<Rightarrow> real \<Rightarrow> real \<Rightarrow> string \<Rightarrow> analysis \<Rightarrow> tech_signals \<Rightarrow> real \<Rightarrow> bool \<times> sell_reason" where
  "exit_rules pnl_percent drawdown_from_high rsi regime an ts hours_held =
     (let trailing_stop_percent = 2;
          (should_sell, sell_reason) =
            (if 3 < pnl_percent \<and> trailing_stop_percent \<le> drawdown_from_high
             then (True, TrailingStop drawdown_from_high)
             else if 5 \<le> pnl_percent then (True, ProfitTarget)
             else if pnl_percent \<le> - 3 then (True, StopLoss)
             else if ts_signal ts = Some ''SELL'' \<and> 70 < get_or (ts_confidence ts) 0
             then (True, TechnicalSell (get_or (ts_confidence ts) 0))
             else if 70 < rsi \<and> 2 < pnl_percent then (True, RsiOverbought rsi)
             else if regime \<in> set [''strong_downtrend'', ''downtrend''] \<and> pnl_percent < 3
             then (True, RegimeChange regime)
             else if (an_signal an = Some ''SELL'' \<or> \<not> get_or (buy_recommendation an) False)
                     \<and> ts_signal ts = Some ''SELL''
             then (if 60 < get_or (combined_confidence an) 0 then (True, CombinedSell)
                   else (False, NoReason))
             else (False, NoReason))
      in if 24 < hours_held \<and> pnl_percent < 2 then (True, TimeBasedExit)
         else (should_sell, sell_reason))"

text \<open>
  \<open>now\<close> and \<open>created_at\<close> are times in seconds. The division by \<open>avg_price\<close> is not
  guarded in the source, and neither is the read of the latest risk snapshot after a sale.
\<close>

definition check_sell_signal ::
    "bot_engine \<Rightarrow> string \<Rightarrow> position \<Rightarrow> analysis \<Rightarrow> real \<Rightarrow> tech_signals \<Rightarrow> real \<Rightarrow>
     engine_state \<Rightarrow> engine_result" where
  "check_sell_signal self symbol position an current_price ts now st =
     (let quantity = pos_quantity position;
          avg_price = pos_avg_price position
      in if avg_price = 0 then Inl (ZeroDivisionError, st)
         else
           (let position_value = quantity / avg_price * current_price;
                pnl = position_value - quantity;
                pnl_percent = (if 0 < quantity then pnl / quantity * 100 else 0);
                hwm0 = get_or (pos_high_water_mark position) avg_price;
                high_water_mark = (if hwm0 < current_price then current_price else hwm0);
                st = (if hwm0 < current_price
                      then st\<lparr>db_positions :=
                             update_one (\<lambda>p. pos_symbol p = symbol)
                               (\<lambda>p. p\<lparr>pos_high_water_mark := Some high_water_mark\<rparr>)
                               (db_positions st)\<rparr>
                      else st);
                tech = get_or (an_technical_indicators an) \<lparr>ti_rsi = None, ti_regime = None\<rparr>;
                rsi = get_or (ti_rsi tech) 50;
                regime = get_or (ti_regime tech) ''neutral'';
                drawdown_from_high =
                  (if 0 < high_water_mark
                   then (high_water_mark - current_price) / high_water_mark * 100 else 0);
                hours_held = (now - pos_created_at position) / 3600;
                (should_sell, sell_reason) =
                  exit_rules pnl_percent drawdown_from_high rsi regime an ts hours_held
            in if should_sell
               then
                 (let order_result = place_market_order self symbol ''SELL'' quantity;
                      st = st\<lparr>submitted_orders := submitted_orders st @
                              [\<lparr>mo_symbol = symbol, mo_side = ''SELL'', mo_quantity = quantity\<rparr>]\<rparr>
                  in if success order_result
                     then
                       (let filled = get_or (filled_price order_result) current_price;
                            final_value = quantity / avg_price * filled;
                            final_pnl = final_value - quantity;
                            trade =
                              \<lparr>tr_symbol = symbol, tr_side = ''SELL'', tr_order_type = ''market'',
                               tr_quantity = quantity, tr_filled_price = filled,
                               tr_status = ''filled'', tr_ai_reasoning = ExitReasoning sell_reason,
                               tr_regime = an_regime an, tr_pnl = Some final_pnl,
                               tr_pnl_percent = Some pnl_percent, tr_created_at = now\<rparr>;
                            st = st\<lparr>db_trades := db_trades st @ [trade],
                                    db_positions :=
                                      delete_one (\<lambda>p. pos_symbol p = symbol) (db_positions st)\<rparr>
                        in if db_risk_metrics st = [] then Inl (AttributeError, st)
                           else
                             (let risk_metrics = last (db_risk_metrics st);
                                  new_cash = get_or (cash_balance risk_metrics) 10000 + final_value
                              in Inr (st\<lparr>db_risk_metrics :=
                                          set_cash_balance new_cash (db_risk_metrics st),
                                        log := log st @
                                          [PositionClosed symbol quantity final_pnl pnl_percent
                                             sell_reason]\<rparr>)))
                     else Inr st)
               else Inr (st\<lparr>log := log st @ [Holding symbol pnl pnl_percent]\<rparr>)))"

section \<open>Conditional Order Manager (services/advanced\_order\_manager.py)\<close>

text \<open>
  A pending order as the three place functions build it. The trigger prices are carried by
  the kind of the order; a LIMIT or STOP\_LIMIT order has its side from the start, an OCO
  order has none until one of its legs triggers. The identifier, a fresh \<^verbatim>\<open>uuid4\<close> in the
  source, is a parameter of the place functions. Times are numbers. Only a LIMIT order has
  a time in force.
\<close>

datatype order_kind = LIMIT real | STOP_LIMIT real real | OCO real real

datatype order_status = PENDING | EXECUTED | CANCELLED

record pending_order =
  ord_id :: string
  ord_user_id :: string
  ord_symbol :: string
  ord_side :: "string option"
  ord_kind :: order_kind
  ord_quantity :: real
  ord_time_in_force :: "string option"
  ord_status :: order_status
  ord_created_at :: nat
  ord_executed_reason :: "string option"
  ord_executed_at :: "nat option"
  ord_executed_price :: "real option"
  ord_cancelled_at :: "nat option"

text \<open>
  The manager: its in-memory index of pending orders, a dictionary in insertion order, the
  \<open>pending_orders\<close> collection in storage, and the market orders it has handed to the
  execution collaborator.
\<close>

record order_manager =
  pending_orders :: "(string \<times> pending_order) list"
  db_pending_orders :: "pending_order list"
  market_orders :: "market_order list"

text \<open>
  Dictionary operations: assignment to a key, removal of a key, and the change of the
  value held under a key, which is how a mutation of an order object shows in the index.
\<close>

definition dict_mutate :: "'k \<Rightarrow> 'v \<Rightarrow> ('k \<times> 'v) list \<Rightarrow> ('k \<times> 'v) list" where
  "dict_mutate k v d = map (\<lambda>(k', v'). if k' = k then (k', v) else (k', v')) d"

definition dict_set :: "'k \<Rightarrow> 'v \<Rightarrow> ('k \<times> 'v) list \<Rightarrow> ('k \<times> 'v) list" where
  "dict_set k v d = (if k \<in> fst ` set d then dict_mutate k v d else d @ [(k, v)])"



definition place_order :: "pending_order \<Rightarrow> order_manager \<Rightarrow> order_manager" where
  "place_order order self =
     self\<lparr>db_pending_orders := db_pending_orders self @ [order],
          pending_orders := dict_set (ord_id order) order (pending_orders self)\<rparr>"




text \<open>
  The trigger test of \<open>check_pending_orders\<close> for one order at the current price: the
  order, with side and reason set when an OCO leg fires, and whether to execute it.
\<close>

definition trigger :: "pending_order \<Rightarrow> real \<Rightarrow> pending_order \<times> bool" where
  "trigger order current_price =
     (case ord_kind order of
        LIMIT limit_price \<Rightarrow>
          if ord_side order = Some ''BUY'' \<and> current_price \<le> limit_price then (order, True)
          else if ord_side order = Some ''SELL'' \<and> limit_price \<le> current_price then (order, True)
          else (order, False)
      | STOP_LIMIT stop_price limit_price \<Rightarrow>
          if ord_side order = Some ''BUY'' \<and> stop_price \<le> current_price
          then (order, current_price \<le> limit_price)
          else if ord_side order = Some ''SELL'' \<and> current_price \<le> stop_price
          then (order, limit_price \<le> current_price)
          else (order, False)
      | OCO take_profit_price stop_loss_price \<Rightarrow>
          if take_profit_price \<le> current_price
          then (order\<lparr>ord_side := Some ''SELL'', ord_executed_reason := Some ''Take Profit''\<rparr>, True)
          else if current_price \<le> stop_loss_price
          then (order\<lparr>ord_side := Some ''SELL'', ord_executed_reason := Some ''Stop Loss''\<rparr>, True)
          else (order, False))"








definition known_ids :: "order_manager \<Rightarrow> string set" where
  "known_ids self = ord_id ` set (db_pending_orders self) \<union> fst ` set (pending_orders self)"










section \<open>Example inputs\<close>

text \<open>Concrete inputs at which the theorems below are instantiated.\<close>

definition example_metrics :: "real \<Rightarrow> real \<Rightarrow> risk_metrics" where
  "example_metrics equity daily =
     \<lparr>total_equity = Some equity, max_equity = Some 10000, equity_floor = Some 9700,
      current_drawdown = Some 0, daily_pnl = Some daily, positions_value = Some 0,
      cash_balance = Some equity, timestamp = 0\<rparr>"

definition example_signal :: "real \<Rightarrow> bool \<Rightarrow> analysis" where
  "example_signal conf flag =
     \<lparr>confidence = Some conf, buy_recommendation = Some flag, an_portfolio_heat = None,
      an_signal = None, combined_confidence = None, an_technical_indicators = None,
      an_regime = None, ai_analysis = None\<rparr>"

definition example_timeframe :: "string \<Rightarrow> timeframe" where
  "example_timeframe t = \<lparr>tf_trend = t, tf_strength = 5, tf_rsi = 50, tf_valid = True\<rparr>"

definition example_mtf :: "string \<Rightarrow> string \<Rightarrow> string \<Rightarrow> string \<Rightarrow> mtf_analysis" where
  "example_mtf t1 t2 t3 t4 =
     \<lparr>tf_5m = example_timeframe t1, tf_15m = example_timeframe t2,
      tf_1h = example_timeframe t3, tf_4h = example_timeframe t4,
      alignment = ''none'', strength = 0\<rparr>"

definition bearish_mtf :: mtf_analysis where
  "bearish_mtf = (example_mtf ''bearish'' ''bearish'' ''bearish'' ''neutral'')
     \<lparr>alignment := ''strong_bearish'', strength := - 4\<rparr>"

definition bullish_mtf :: mtf_analysis where
  "bullish_mtf = (example_mtf ''bullish'' ''bullish'' ''bullish'' ''neutral'')
     \<lparr>alignment := ''strong_bullish'', strength := 5\<rparr>"

text \<open>
  Two cached price series of 20 points whose return series have correlation exactly 0.7,
  and a portfolio holding the second symbol.
\<close>

definition eth_prices :: "real list" where
  "eth_prices = [65536, 98304, 49152, 55296, 48384, 54432, 61236, 45927, 45927, 45927,
                 45927, 45927, 45927, 45927, 45927, 45927, 45927, 45927, 45927, 45927]"

definition btc_prices :: "real list" where
  "btc_prices = [65536, 98304, 49152, 55296, 48384, 42336, 37044, 46305, 46305, 46305,
                 46305, 46305, 46305, 46305, 46305, 46305, 46305, 46305, 46305, 46305]"



definition btc_position :: position where
  "btc_position = \<lparr>pos_symbol = ''BTC-USD'', pos_quantity = 500, pos_avg_price = 46000,
     pos_current_price = 46305, pos_pnl = Some 0, pos_pnl_percent = Some 0,
     pos_entry_price = None, pos_high_water_mark = None, pos_created_at = 0\<rparr>"

definition example_cache :: "string \<rightharpoonup> real list" where
  "example_cache = [''ETH-USD'' \<mapsto> eth_prices, ''BTC-USD'' \<mapsto> btc_prices]"

text \<open>A price history of 35 points: flat at 100, then one point at 200.\<close>

definition spike_prices :: "real list" where
  "spike_prices = replicate 34 100 @ [200]"

text \<open>
  A short history of one tenant: the API creates the default snapshot, a tick with one open
  position, a cash-balance write, and a tick after the position has gained 2000.
\<close>

definition example_history :: "metrics_event list" where
  "example_history =
     [ApiRead 50, Tick [btc_position] 100, CashUpdate 9000,
      Tick [btc_position\<lparr>pos_pnl := Some 2000\<rparr>] 200]"

text \<open>
  An engine whose execution collaborator fills every order, a buy signal that passes every
  gate, and a position bought at 46000 that is held for 25 hours and is down 5%.
\<close>

definition example_engine :: bot_engine where
  "example_engine =
     \<lparr>be_risk_manager = default_risk_manager,
      price_history_cache = example_cache,
      place_market_order = (\<lambda>symbol side quantity. \<lparr>success = True, filled_price = None\<rparr>)\<rparr>"

definition buy_analysis :: analysis where
  "buy_analysis = (example_signal 80 True)\<lparr>an_portfolio_heat := Some \<lparr>heat_percent = Some 3\<rparr>\<rparr>"

definition flat_state :: engine_state where
  "flat_state =
     \<lparr>db_positions = [], db_trades = [], db_risk_metrics = [default_metrics 0],
      submitted_orders = [], log = []\<rparr>"

definition losing_position :: position where
  "losing_position = btc_position\<lparr>pos_created_at := 0\<rparr>"

definition hold_analysis :: analysis where
  "hold_analysis = (example_signal 50 False)
     \<lparr>an_signal := Some ''HOLD'',
      an_technical_indicators := Some \<lparr>ti_rsi = Some 40, ti_regime = Some ''ranging''\<rparr>\<rparr>"

definition hold_signals :: tech_signals where
  "hold_signals = \<lparr>ts_signal = Some ''HOLD'', ts_confidence = Some 50\<rparr>"

definition holding_state :: engine_state where
  "holding_state = flat_state\<lparr>db_positions := [losing_position]\<rparr>"





section \<open>Properties of rounding\<close>

lemma round_half_even_bounds:
  "x - 1 / 2 \<le> of_int (round_half_even x) \<and> of_int (round_half_even x) \<le> x + 1 / 2"
  unfolding round_half_even_def Let_def by (auto; linarith)


lemma round_half_even_ge_int: "of_int k \<le> x \<Longrightarrow> k \<le> round_half_even x"
  unfolding round_half_even_def Let_def by (auto simp: le_floor_iff; linarith)

lemma py_round_ge_grid: "of_int k / 10 ^ n \<le> x \<Longrightarrow> of_int k / 10 ^ n \<le> py_round x n"
proof -
  assume "of_int k / 10 ^ n \<le> x"
  then have "of_int k \<le> x * 10 ^ n" by (simp add: pos_divide_le_eq)
  then have "k \<le> round_half_even (x * 10 ^ n)" by (rule round_half_even_ge_int)
  then show ?thesis unfolding py_round_def by (simp add: divide_right_mono)
qed

lemma py_round_upper: "py_round x n \<le> x + 1 / (2 * 10 ^ n)"
proof -
  have "of_int (round_half_even (x * 10 ^ n)) \<le> x * 10 ^ n + 1 / 2"
    using round_half_even_bounds by blast
  then have "of_int (round_half_even (x * 10 ^ n)) / 10 ^ n \<le> (x * 10 ^ n + 1 / 2) / 10 ^ n"
    by (simp add: divide_right_mono)
  then show ?thesis unfolding py_round_def by (simp add: add_divide_distrib)
qed

lemma py_round_10: "10 \<le> x \<Longrightarrow> 10 \<le> py_round x 2"
  using py_round_ge_grid [of 1000 2 x] by simp

lemma py_round_exact_10: "py_round 10 2 = 10"
  by (simp add: py_round_def round_half_even_def)

lemma py_round_0: "py_round 0 n = 0"
  by (simp add: py_round_def round_half_even_def)








section \<open>Risk Gate: validation order\<close>

text \<open>
  C7. For every signal and risk-metrics input, \<open>validate_trade\<close> approves exactly when the
  capital-floor check passes (equity is not below \<open>max_equity \<times> capital_floor_pct\<close>), the
  daily-loss check passes (daily P&L is not below \<open>- max_equity \<times> max_daily_loss_pct\<close>),
  the signal confidence is at least 60 and the buy-recommendation flag is set. When it
  rejects, the reason is that of the first failing check in the order floor, loss,
  confidence, signal. Missing keys take the defaults of the source (0, and no flag).
\<close>

theorem validate_trade_first_failing_check:
  "let v = validate_trade self sig rm;
       floor_ok = (\<not> get_or (total_equity rm) 0 < get_or (max_equity rm) 0 * capital_floor_pct self);
       loss_ok = (\<not> get_or (daily_pnl rm) 0 < - (get_or (max_equity rm) 0 * max_daily_loss_pct self));
       conf_ok = (60 \<le> get_or (confidence sig) 0);
       flag = get_or (buy_recommendation sig) False
   in (approved v \<longleftrightarrow> floor_ok \<and> loss_ok \<and> conf_ok \<and> flag) \<and>
      (\<not> floor_ok \<longrightarrow> reason v = ''Capital floor breach - trading halted'') \<and>
      (floor_ok \<and> \<not> loss_ok \<longrightarrow> reason v = ''Daily loss limit reached'') \<and>
      (floor_ok \<and> loss_ok \<and> \<not> conf_ok \<longrightarrow> reason v = ''Signal confidence too low'') \<and>
      (floor_ok \<and> loss_ok \<and> conf_ok \<and> \<not> flag \<longrightarrow> reason v = ''No strong buy signal'') \<and>
      (approved v \<longrightarrow> reason v = ''All checks passed'')"
  by (simp add: validate_trade_def check_capital_floor_def check_daily_loss_def
      get_rejection_reason_def Let_def)

theorem validate_trade_first_failing_check_witness:
  "reason (validate_trade default_risk_manager (example_signal 50 False) (example_metrics 9600 (- 200)))
     = ''Capital floor breach - trading halted'' \<and>
   reason (validate_trade default_risk_manager (example_signal 50 False) (example_metrics 9900 (- 200)))
     = ''Daily loss limit reached'' \<and>
   reason (validate_trade default_risk_manager (example_signal 50 False) (example_metrics 9900 (- 100)))
     = ''Signal confidence too low'' \<and>
   reason (validate_trade default_risk_manager (example_signal 60 False) (example_metrics 9900 (- 100)))
     = ''No strong buy signal'' \<and>
   approved (validate_trade default_risk_manager (example_signal 60 True) (example_metrics 9900 (- 100))) \<and>
   reason (validate_trade default_risk_manager (example_signal 60 True) (example_metrics 9900 (- 100)))
     = ''All checks passed''"
  using
    validate_trade_first_failing_check
      [of default_risk_manager "example_signal 50 False" "example_metrics 9600 (- 200)"]
    validate_trade_first_failing_check
      [of default_risk_manager "example_signal 50 False" "example_metrics 9900 (- 200)"]
    validate_trade_first_failing_check
      [of default_risk_manager "example_signal 50 False" "example_metrics 9900 (- 100)"]
    validate_trade_first_failing_check
      [of default_risk_manager "example_signal 60 False" "example_metrics 9900 (- 100)"]
    validate_trade_first_failing_check
      [of default_risk_manager "example_signal 60 True" "example_metrics 9900 (- 100)"]
  by (simp add: Let_def default_risk_manager_def example_signal_def example_metrics_def get_or_def)

section \<open>Position sizing\<close>

lemma float_zero_bound_small: "float_zero_bound < 1 / 1000000"
proof -
  have "(2 :: real) ^ 20 \<le> 2 ^ 1075" by (rule power_increasing) simp_all
  then have "1 / (2 :: real) ^ 1075 \<le> 1 / 2 ^ 20" by (simp add: frac_le)
  also have "\<dots> < 1 / 1000000" by simp
  finally show ?thesis by (simp add: float_zero_bound_def)
qed

lemma float_overflow_bound_big: "1000000 < float_overflow_bound"
proof -
  have "(2 :: real) ^ 1024 = 2 ^ 970 * 2 ^ 54" by (simp add: power_add [symmetric])
  then have b: "float_overflow_bound = 2 ^ 970 * (2 ^ 54 - 1)"
    by (simp add: float_overflow_bound_def algebra_simps)
  have "(2 :: real) ^ 20 \<le> 2 ^ 970" by (rule power_increasing) simp_all
  moreover have "(1 :: real) \<le> 2 ^ 54 - 1" by simp
  ultimately have "(2 :: real) ^ 20 * 1 \<le> 2 ^ 970 * (2 ^ 54 - 1)"
    by (intro mult_mono) simp_all
  then show ?thesis unfolding b by simp
qed

lemma py_square_moderate:
  assumes "1 / 1000 \<le> x" "x \<le> 1000"
  shows "py_square x = Inr (x ^ 2)"
proof -
  have "0 \<le> x" using assms(1) by simp
  have "(1 / 1000) ^ 2 \<le> x ^ 2" using assms(1) by (intro power_mono) simp_all
  then have lo: "float_zero_bound < x ^ 2" using float_zero_bound_small by (simp add: power2_eq_square)
  have "x ^ 2 \<le> 1000 ^ 2" using assms(2) \<open>0 \<le> x\<close> by (intro power_mono) simp_all
  then have hi: "x ^ 2 < float_overflow_bound" using float_overflow_bound_big by simp
  show ?thesis using lo hi by (simp add: py_square_def)
qed

lemma kelly_ratio_tenth: "kelly_ratio edge (1 / 10) = Inr (edge * 100)"
  using py_square_moderate [of "1 / 10"] by (simp add: kelly_ratio_def power2_eq_square)

lemma clamp_round_bounds:
  assumes "0 < cap \<Longrightarrow> ps \<le> cap * (2 / 100)"
  shows "10 \<le> py_round (max 10 (min ps (cap * (5 / 100)))) 2 \<and>
         py_round (max 10 (min ps (cap * (5 / 100)))) 2 \<le> max 10 (5 / 100 * cap)"
proof
  show "10 \<le> py_round (max 10 (min ps (cap * (5 / 100)))) 2"
    by (rule py_round_10) simp
next
  show "py_round (max 10 (min ps (cap * (5 / 100)))) 2 \<le> max 10 (5 / 100 * cap)"
  proof (cases "min ps (cap * (5 / 100)) \<le> 10")
    case True
    then have "max 10 (min ps (cap * (5 / 100))) = 10" by simp
    then show ?thesis by (simp add: py_round_exact_10)
  next
    case False
    then have big: "10 < ps" "10 < cap * (5 / 100)" by simp_all
    then have pos: "0 < cap" by simp
    have m: "max 10 (min ps (cap * (5 / 100))) = min ps (cap * (5 / 100))"
      using False by simp
    have "py_round (min ps (cap * (5 / 100))) 2 \<le> min ps (cap * (5 / 100)) + 1 / (2 * 10 ^ 2)"
      by (rule py_round_upper)
    also have "\<dots> \<le> cap * (2 / 100) + 1 / 200"
      using assms [OF pos] by simp
    also have "\<dots> \<le> 5 / 100 * cap" using big by simp
    finally show ?thesis using m by simp
  qed
qed

lemma position_size_bounds:
  assumes "calculate_position_size signal_strength conf capital volatility = Inr r"
  shows "10 \<le> r \<and> r \<le> max 10 (5 / 100 * capital)"
proof -
  obtain k where r: "r = py_round (max 10 (min (capital * min (k * (25 / 100)) (2 / 100))
                                        (capital * (5 / 100)))) 2"
    using assms by (auto simp: calculate_position_size_def Let_def split: sum.splits)
  show ?thesis
    unfolding r by (rule clamp_round_bounds) (simp add: mult_left_mono)
qed

lemma optimal_position_size_bounds:
  assumes "0 < max_heat"
      and "calculate_optimal_position_size signal_strength volatility equity current_heat max_heat
             = Inr r"
  shows "r = 0 \<or> (10 \<le> r \<and> r \<le> max 10 (5 / 100 * equity))"
proof (cases "max_heat - current_heat \<le> 0")
  case True
  then show ?thesis
    using assms(2) by (auto simp: calculate_optimal_position_size_def Let_def split: sum.splits)
next
  case False
  define adj where "adj = min ((max_heat - current_heat) / max_heat) 1"
  obtain k0 where r: "r = py_round (max 10 (min (equity * min (k0 * (25 / 100)) (2 / 100) * adj)
                                         (equity * (5 / 100)))) 2"
    using assms False
    by (auto simp: calculate_optimal_position_size_def Let_def adj_def split: sum.splits)
  define k where "k = min (k0 * (25 / 100)) (2 / 100)"
  have kle: "k \<le> 2 / 100" by (simp add: k_def)
  have adj: "0 < adj" "adj \<le> 1" using False assms(1) by (simp_all add: adj_def)
  have key: "0 < equity \<Longrightarrow> equity * k * adj \<le> equity * (2 / 100)"
  proof -
    assume e: "0 < equity"
    have "k * adj \<le> 2 / 100"
    proof (cases "0 \<le> k")
      case True
      then have "k * adj \<le> k * 1" using adj by (intro mult_left_mono) simp_all
      then show ?thesis using kle by simp
    next
      case False
      then have "k * adj \<le> 0" using adj by (simp add: mult_le_0_iff)
      then show ?thesis by simp
    qed
    then have "equity * (k * adj) \<le> equity * (2 / 100)"
      using e by (intro mult_left_mono) simp_all
    then show ?thesis by (simp add: mult.assoc)
  qed
  show ?thesis
    using clamp_round_bounds [OF key] by (simp add: r k_def)
qed

lemma position_size_below_200:
  assumes "capital < 200"
      and "calculate_position_size signal_strength conf capital volatility = Inr r"
  shows "r = 10 \<and> 5 / 100 * capital < r"
  using position_size_bounds [OF assms(2)] assms(1) by simp

lemma position_size_tiny_volatility_raises:
  "calculate_position_size 1 100 10000 (1 / 2 ^ 600) = Inl ZeroDivisionError"
proof -
  have "(2 :: real) ^ 1075 \<le> 2 ^ 1200" by (rule power_increasing) simp_all
  then have "1 / (2 :: real) ^ 1200 \<le> 1 / 2 ^ 1075" by (simp add: frac_le)
  moreover have "((1 :: real) / 2 ^ 600) ^ 2 = 1 / 2 ^ 1200"
    by (simp add: power_divide power_mult [symmetric])
  moreover have "(1 :: real) / 2 ^ 1200 < float_overflow_bound"
  proof -
    have "(1 :: real) / 2 ^ 1200 \<le> 1" by simp
    then show ?thesis using float_overflow_bound_big by simp
  qed
  ultimately have "py_square (1 / 2 ^ 600) = Inr 0"
    by (simp add: py_square_def float_zero_bound_def)
  then show ?thesis
    by (simp add: calculate_position_size_def kelly_ratio_def)
qed

text \<open>
  C3 does not hold of the source below a capital of 200. With a capital of 100 the Kelly
  size is 2, the 5% maximum is 5, and the $10 minimum is applied last and wins: both
  sizing functions return 10, which is neither 0 nor inside \<open>[10, 0.05 \<times> 100] = [10, 5]\<close>,
  and is 10% of the capital, against the 5% maximum the source announces.
\<close>

theorem position_size_exceeds_maximum_at_small_capital:
  "calculate_position_size 1 100 100 (1 / 10) = Inr 10 \<and>
   calculate_optimal_position_size (4 / 5) (1 / 10) 100 (3 / 100) (3 / 20) = Inr 10 \<and>
   (5 / 100 * 100 :: real) < 10"
proof -
  have r: "py_round 10 2 = 10" by (rule py_round_exact_10)
  have 1: "calculate_position_size 1 100 100 (1 / 10) = Inr 10"
    by (simp add: calculate_position_size_def kelly_ratio_tenth Let_def r)
  have 2: "calculate_optimal_position_size (4 / 5) (1 / 10) 100 (3 / 100) (3 / 20) = Inr 10"
    by (simp add: calculate_optimal_position_size_def kelly_ratio_tenth Let_def r)
  show ?thesis using 1 2 by simp
qed

section \<open>Multi-timeframe alignment and recommendation\<close>

text \<open>
  C10. When all four timeframes are valid and exactly two of them trend bullish and two
  bearish, \<open>calculate_alignment\<close> returns \<open>bullish\<close>: the bullish count is tested against the
  threshold 2 before the bearish count is looked at. \<open>bearish\<close> and \<open>strong_bearish\<close> are
  returned only when at most one valid timeframe is bullish.
\<close>

theorem calculate_alignment_bullish_first:
  "(tf_valid (tf_5m a) \<and> tf_valid (tf_15m a) \<and> tf_valid (tf_1h a) \<and> tf_valid (tf_4h a) \<and>
    count_list (map tf_trend [tf_5m a, tf_15m a, tf_1h a, tf_4h a]) ''bullish'' = 2 \<and>
    count_list (map tf_trend [tf_5m a, tf_15m a, tf_1h a, tf_4h a]) ''bearish'' = 2
      \<longrightarrow> calculate_alignment a = ''bullish'') \<and>
   (calculate_alignment a = ''bearish'' \<or> calculate_alignment a = ''strong_bearish''
      \<longrightarrow> count_list (map tf_trend (filter tf_valid [tf_5m a, tf_15m a, tf_1h a, tf_4h a]))
            ''bullish'' \<le> 1)"
proof (intro conjI impI)
  assume h: "tf_valid (tf_5m a) \<and> tf_valid (tf_15m a) \<and> tf_valid (tf_1h a) \<and> tf_valid (tf_4h a) \<and>
    count_list (map tf_trend [tf_5m a, tf_15m a, tf_1h a, tf_4h a]) ''bullish'' = 2 \<and>
    count_list (map tf_trend [tf_5m a, tf_15m a, tf_1h a, tf_4h a]) ''bearish'' = 2"
  then have v: "valid_trends a = map tf_trend [tf_5m a, tf_15m a, tf_1h a, tf_4h a]"
    by (simp add: valid_trends_def)
  have "count_list (valid_trends a) ''bullish'' = 2" using h v by simp
  moreover have "valid_trends a \<noteq> []" using v by simp
  ultimately show "calculate_alignment a = ''bullish''"
    by (simp add: calculate_alignment_def Let_def)
next
  assume "calculate_alignment a = ''bearish'' \<or> calculate_alignment a = ''strong_bearish''"
  then have "\<not> 2 \<le> count_list (valid_trends a) ''bullish''"
    by (auto simp: calculate_alignment_def Let_def split: if_splits)
  then show "count_list (map tf_trend (filter tf_valid [tf_5m a, tf_15m a, tf_1h a, tf_4h a]))
            ''bullish'' \<le> 1"
    by (simp add: valid_trends_def)
qed

theorem calculate_alignment_bullish_first_witness:
  "calculate_alignment (example_mtf ''bearish'' ''bullish'' ''bearish'' ''bullish'') = ''bullish'' \<and>
   calculate_alignment (example_mtf ''bearish'' ''bullish'' ''bearish'' ''bearish'') = ''strong_bearish'' \<and>
   count_list (map tf_trend (filter tf_valid
      [example_timeframe ''bearish'', example_timeframe ''bullish'',
       example_timeframe ''bearish'', example_timeframe ''bearish''])) ''bullish'' \<le> 1"
  using
    calculate_alignment_bullish_first [of "example_mtf ''bearish'' ''bullish'' ''bearish'' ''bullish''"]
    calculate_alignment_bullish_first [of "example_mtf ''bearish'' ''bullish'' ''bearish'' ''bearish''"]
  by (simp add: example_mtf_def example_timeframe_def calculate_alignment_def valid_trends_def)

text \<open>
  C5, as stated, fails in its bearish half: with alignment \<open>strong_bearish\<close>, strength \<open>-4\<close>
  and no position, the action is AVOID, not SELL; with a position it is SELL, not AVOID.
\<close>

theorem strong_bearish_no_position_counterexample:
  "alignment bearish_mtf = ''strong_bearish'' \<and> strength bearish_mtf < - 3 \<and>
   action (get_trading_recommendation bearish_mtf False) = ''AVOID'' \<and>
   action (get_trading_recommendation bearish_mtf False) \<noteq> ''SELL'' \<and>
   action (get_trading_recommendation bearish_mtf True) \<noteq> ''AVOID''"
  by (simp add: bearish_mtf_def example_mtf_def get_trading_recommendation_def)

text \<open>
  C5, amended. With alignment \<open>strong_bullish\<close> and strength above 3 the action is BUY when
  no position exists and HOLD when one exists; with alignment \<open>strong_bearish\<close> and strength
  below \<open>-3\<close> the action is SELL when a position exists and AVOID when none exists. In both
  cases the confidence is \<open>min(70 + 3 \<times> |strength|, 95)\<close>.
\<close>

theorem strong_alignment_recommendation:
  "(alignment mtf = ''strong_bullish'' \<and> 3 < strength mtf \<longrightarrow>
      action (get_trading_recommendation mtf current_position)
        = (if current_position then ''HOLD'' else ''BUY'') \<and>
      rec_confidence (get_trading_recommendation mtf current_position)
        = min (70 + 3 * \<bar>strength mtf\<bar>) 95) \<and>
   (alignment mtf = ''strong_bearish'' \<and> strength mtf < - 3 \<longrightarrow>
      action (get_trading_recommendation mtf current_position)
        = (if current_position then ''SELL'' else ''AVOID'') \<and>
      rec_confidence (get_trading_recommendation mtf current_position)
        = min (70 + 3 * \<bar>strength mtf\<bar>) 95)"
  by (auto simp: get_trading_recommendation_def Let_def)

theorem strong_alignment_recommendation_witness:
  "action (get_trading_recommendation bullish_mtf False) = ''BUY'' \<and>
   action (get_trading_recommendation bullish_mtf True) = ''HOLD'' \<and>
   rec_confidence (get_trading_recommendation bullish_mtf False) = 85 \<and>
   action (get_trading_recommendation bearish_mtf True) = ''SELL'' \<and>
   action (get_trading_recommendation bearish_mtf False) = ''AVOID'' \<and>
   rec_confidence (get_trading_recommendation bearish_mtf True) = 82"
  using
    strong_alignment_recommendation [of bullish_mtf False]
    strong_alignment_recommendation [of bullish_mtf True]
    strong_alignment_recommendation [of bearish_mtf True]
    strong_alignment_recommendation [of bearish_mtf False]
  by (simp add: bullish_mtf_def bearish_mtf_def example_mtf_def)

section \<open>Correlation check\<close>





















section \<open>MACD\<close>

lemma calculate_ema_snoc:
  "period \<le> length xs \<Longrightarrow>
   calculate_ema (xs @ [x]) period =
     x * (2 / (of_nat period + 1)) + calculate_ema xs period * (1 - 2 / (of_nat period + 1))"
  by (simp add: calculate_ema_def Let_def)

lemma calculate_ema_eq_ema: "calculate_ema xs period = ema period xs"
proof (induction xs rule: rev_induct)
  case Nil
  then show ?case by (simp add: calculate_ema_def ema.simps [of period "[]"])
next
  case (snoc x xs)
  show ?case
  proof (cases "period \<le> length xs")
    case True
    then show ?thesis
      using snoc.IH by (simp add: calculate_ema_snoc ema.simps [of period "xs @ [x]"] algebra_simps)
  next
    case False
    then show ?thesis
      by (simp add: calculate_ema_def ema.simps [of period "xs @ [x]"] Let_def)
  qed
qed

lemma macd_values_loop_eq:
  "macd_values_loop prices fast slow is acc =
     acc @ map (\<lambda>i. ema fast (take (i + 1) prices) - ema slow (take (i + 1) prices)) is"
  by (induction "is" arbitrary: acc) (simp_all add: Let_def calculate_ema_eq_ema)

lemma macd_values_eq_series:
  "macd_values_loop prices fast slow [slow ..< length prices] [] = macd_line_series prices fast slow"
  by (simp add: macd_values_loop_eq macd_line_series_def)

lemma length_series: "length (macd_line_series prices fast slow) = length prices - slow"
  by (simp add: macd_line_series_def)

lemma macd_short:
  "length prices < slow + signal \<Longrightarrow>
   calculate_macd prices fast slow signal = \<lparr>macd = 0, macd_signal = 0, histogram = 0\<rparr>"
  by (simp add: calculate_macd_def)

lemma macd_long:
  assumes "slow + signal \<le> length prices" "2 * slow \<le> length prices"
  shows "calculate_macd prices fast slow signal =
     \<lparr>macd = py_round (ema fast prices - ema slow prices) 2,
      macd_signal = py_round (ema signal (macd_line_series prices fast slow)) 2,
      histogram = py_round (ema fast prices - ema slow prices
                    - ema signal (macd_line_series prices fast slow)) 2\<rparr>"
proof -
  have "signal \<le> length (macd_line_series prices fast slow)"
    using assms by (simp add: length_series)
  then show ?thesis
    using assms
    by (simp add: calculate_macd_def Let_def calculate_ema_eq_ema macd_values_eq_series
        mult.commute)
qed

lemma macd_middle:
  assumes "slow + signal \<le> length prices" "length prices < 2 * slow"
  shows "calculate_macd prices fast slow signal =
     \<lparr>macd = py_round (ema fast prices - ema slow prices) 2,
      macd_signal = py_round (ema fast prices - ema slow prices) 2,
      histogram = 0\<rparr>"
  using assms
  by (simp add: calculate_macd_def Let_def calculate_ema_eq_ema py_round_0 mult.commute)

lemma np_mean_replicate: "0 < n \<Longrightarrow> np_mean (replicate n c) = c"
  by (simp add: np_mean_def sum_list_replicate)

lemma ema_snoc:
  "period \<le> length xs \<Longrightarrow>
   ema period (xs @ [x]) =
     2 / (of_nat period + 1) * x + (1 - 2 / (of_nat period + 1)) * ema period xs"
  by (simp add: ema.simps [of period "xs @ [x]"])

lemma ema_const: "0 < period \<Longrightarrow> 0 < n \<Longrightarrow> ema period (replicate n c) = c"
proof (induction n)
  case 0
  then show ?case by simp
next
  case (Suc n)
  show ?case
  proof (cases "Suc n \<le> period")
    case True
    then show ?thesis
      using np_mean_replicate [of "Suc n" c] by (simp add: ema.simps [of period "c # replicate n c"])
  next
    case False
    then have n: "period \<le> n" "0 < n" using Suc.prems by simp_all
    have "replicate (Suc n) c = replicate n c @ [c]" by (simp add: replicate_append_same)
    then show ?thesis using ema_snoc [of period "replicate n c" c] Suc.IH n Suc.prems
      by (simp add: algebra_simps)
  qed
qed

lemma take_spike: "n \<le> 34 \<Longrightarrow> take n spike_prices = replicate n 100"
  by (simp add: spike_prices_def)

lemma ema_spike_fast: "ema 12 spike_prices = 1500 / 13"
  using ema_snoc [of 12 "replicate 34 100" 200] ema_const [of 12 34 100]
  by (simp add: spike_prices_def)

lemma ema_spike_slow: "ema 26 spike_prices = 2900 / 27"
  using ema_snoc [of 26 "replicate 34 100" 200] ema_const [of 26 34 100]
  by (simp add: spike_prices_def)

lemma spike_series: "macd_line_series spike_prices 12 26 = [0, 0, 0, 0, 0, 0, 0, 0, 2800 / 351]"
proof -
  have l: "length spike_prices = 35" by (simp add: spike_prices_def)
  have t: "take 35 spike_prices = spike_prices" by (simp add: spike_prices_def)
  have z: "\<And>n. 0 < n \<Longrightarrow> n \<le> 34 \<Longrightarrow>
      ema 12 (take n spike_prices) - ema 26 (take n spike_prices) = 0"
    by (simp add: take_spike ema_const)
  have u: "[26 ..< 35] = [26, 27, 28, 29, 30, 31, 32, 33, 34 :: nat]"
    by (simp add: upt_rec_numeral)
  show ?thesis
    unfolding macd_line_series_def l u
    by (simp add: z t ema_spike_fast ema_spike_slow)
qed

lemma spike_signal_ema: "ema 9 (macd_line_series spike_prices 12 26) = 2800 / 3159"
  unfolding spike_series
  by (simp add: ema.simps [of 9] np_mean_def)

lemma spike_macd: "calculate_macd spike_prices 12 26 9
   = \<lparr>macd = 798 / 100, macd_signal = 798 / 100, histogram = 0\<rparr>"
proof -
  have l: "length spike_prices = 35" by (simp add: spike_prices_def)
  have r: "py_round (2800 / 351) 2 = 798 / 100"
    by (simp add: py_round_def round_half_even_def)
  have r0: "py_round 0 2 = 0"
    by (simp add: py_round_def round_half_even_def)
  show ?thesis
    by (simp add: calculate_macd_def l Let_def calculate_ema_eq_ema ema_spike_fast ema_spike_slow r r0)
qed

text \<open>
  C4, as stated, fails for sequences of at least \<open>slow + signal\<close> but fewer than \<open>2 \<times> slow\<close>
  points: there the source takes the MACD line itself as the signal line. With 34 prices
  of 100 followed by one of 200 (35 points, defaults 12, 26, 9) the returned signal is 7.98,
  the rounded MACD line, while the EMA of span 9 of the trailing MACD-line series is
  \<open>2800/3159\<close>, which rounds to 0.89.
\<close>

theorem macd_signal_short_history_counterexample:
  "26 + 9 \<le> length spike_prices \<and>
   macd_signal (calculate_macd spike_prices 12 26 9) = 798 / 100 \<and>
   ema 9 (macd_line_series spike_prices 12 26) = 2800 / 3159 \<and>
   py_round (ema 9 (macd_line_series spike_prices 12 26)) 2 = 89 / 100"
proof -
  have r: "py_round (2800 / 3159) 2 = 89 / 100"
    by (simp add: py_round_def round_half_even_def)
  show ?thesis
    by (simp add: spike_macd spike_signal_ema r) (simp add: spike_prices_def)
qed

text \<open>
  C4, amended. With positive periods: for every price sequence with fewer than
  \<open>slow + signal\<close> points \<open>calculate_macd\<close> returns the all-zero struct. For every sequence
  with at least \<open>slow + signal\<close> points the returned macd is the MACD line (fast EMA minus
  slow EMA) rounded to 2 decimals. If the sequence also has at least \<open>2 \<times> slow\<close> points, the
  returned signal is the EMA of span \<open>signal\<close> of the trailing MACD-line series, rounded to
  2 decimals, and the histogram is the unrounded MACD line minus the unrounded signal line,
  rounded to 2 decimals. If it has fewer than \<open>2 \<times> slow\<close> points, the signal is the rounded
  MACD line and the histogram is 0.
\<close>

theorem macd_contract:
  assumes "0 < fast" "0 < slow" "0 < signal"
  shows
    "(length prices < slow + signal \<longrightarrow>
        calculate_macd prices fast slow signal = \<lparr>macd = 0, macd_signal = 0, histogram = 0\<rparr>) \<and>
     (slow + signal \<le> length prices \<longrightarrow>
        macd (calculate_macd prices fast slow signal)
          = py_round (ema fast prices - ema slow prices) 2) \<and>
     (slow + signal \<le> length prices \<and> 2 * slow \<le> length prices \<longrightarrow>
        macd_signal (calculate_macd prices fast slow signal)
          = py_round (ema signal (macd_line_series prices fast slow)) 2 \<and>
        histogram (calculate_macd prices fast slow signal)
          = py_round (ema fast prices - ema slow prices
                       - ema signal (macd_line_series prices fast slow)) 2) \<and>
     (slow + signal \<le> length prices \<and> length prices < 2 * slow \<longrightarrow>
        macd_signal (calculate_macd prices fast slow signal)
          = py_round (ema fast prices - ema slow prices) 2 \<and>
        histogram (calculate_macd prices fast slow signal) = 0)"
proof (intro conjI impI)
  show "length prices < slow + signal \<Longrightarrow>
      calculate_macd prices fast slow signal = \<lparr>macd = 0, macd_signal = 0, histogram = 0\<rparr>"
    by (rule macd_short)
next
  assume a: "slow + signal \<le> length prices"
  show "macd (calculate_macd prices fast slow signal)
          = py_round (ema fast prices - ema slow prices) 2"
  proof (cases "2 * slow \<le> length prices")
    case True
    with a show ?thesis by (simp add: macd_long)
  next
    case False
    with a show ?thesis by (simp add: macd_middle)
  qed
next
  assume a: "slow + signal \<le> length prices \<and> 2 * slow \<le> length prices"
  then show "macd_signal (calculate_macd prices fast slow signal)
          = py_round (ema signal (macd_line_series prices fast slow)) 2"
    by (simp add: macd_long)
  from a show "histogram (calculate_macd prices fast slow signal)
          = py_round (ema fast prices - ema slow prices
                       - ema signal (macd_line_series prices fast slow)) 2"
    by (simp add: macd_long)
next
  assume a: "slow + signal \<le> length prices \<and> length prices < 2 * slow"
  then show "macd_signal (calculate_macd prices fast slow signal)
          = py_round (ema fast prices - ema slow prices) 2"
    by (simp add: macd_middle)
  from a show "histogram (calculate_macd prices fast slow signal) = 0"
    by (simp add: macd_middle)
qed

theorem macd_contract_witness:
  "(0 :: nat) < 12 \<and> (0 :: nat) < 26 \<and> (0 :: nat) < 9 \<and>
   calculate_macd [100, 101, 102] 12 26 9 = \<lparr>macd = 0, macd_signal = 0, histogram = 0\<rparr> \<and>
   macd_signal (calculate_macd spike_prices 12 26 9)
     = py_round (ema 12 spike_prices - ema 26 spike_prices) 2 \<and>
   histogram (calculate_macd spike_prices 12 26 9) = 0 \<and>
   macd_signal (calculate_macd (replicate 52 100) 12 26 9)
     = py_round (ema 9 (macd_line_series (replicate 52 100) 12 26)) 2"
  using macd_contract [of 12 26 9 "[100, 101, 102]"]
    macd_contract [of 12 26 9 spike_prices]
    macd_contract [of 12 26 9 "replicate 52 100"]
  by (simp add: spike_prices_def)

section \<open>Risk snapshots: max equity never decreases\<close>

lemma update_step:
  "\<exists>m. update_risk_metrics positions now db = db @ [m] \<and>
       max_equity m = Some (max (if db = [] then 10000 else max_equity_of (last db))
                               (new_total_equity positions db))"
  by (cases "db = []")
     (auto simp: update_risk_metrics_def Let_def max_equity_of_def new_total_equity_def max_def)

lemma sorted_le_last: "sorted (xs :: real list) \<Longrightarrow> y \<in> set xs \<Longrightarrow> y \<le> last xs"
  by (induction xs) auto

lemma sorted_snoc_last:
  "sorted (xs :: real list) \<Longrightarrow> (xs \<noteq> [] \<Longrightarrow> last xs \<le> x) \<Longrightarrow> sorted (xs @ [x])"
proof (cases "xs = []")
  case True
  then show ?thesis by simp
next
  case False
  assume s: "sorted xs" and l: "xs \<noteq> [] \<Longrightarrow> last xs \<le> x"
  have "\<And>y. y \<in> set xs \<Longrightarrow> y \<le> x"
    using sorted_le_last [OF s] l [OF False] by fastforce
  then show ?thesis using s by (simp add: sorted_append)
qed

lemma apply_event_sorted:
  assumes "sorted (map max_equity_of db)"
  shows "sorted (map max_equity_of (apply_event e db))"
proof (cases e)
  case (Tick positions now)
  obtain m where m: "update_risk_metrics positions now db = db @ [m]"
    "max_equity m = Some (max (if db = [] then 10000 else max_equity_of (last db))
                               (new_total_equity positions db))"
    using update_step by blast
  have "db \<noteq> [] \<Longrightarrow> last (map max_equity_of db) \<le> max_equity_of m"
    using m(2) by (simp add: last_map max_equity_of_def get_or_def)
  then have "sorted (map max_equity_of db @ [max_equity_of m])"
    using assms by (intro sorted_snoc_last) simp_all
  then show ?thesis using Tick m(1) by simp
next
  case (CashUpdate c)
  have "map max_equity_of (set_cash_balance c db) = map max_equity_of db"
  proof (cases "db = []")
    case True
    then show ?thesis by (simp add: set_cash_balance_def)
  next
    case False
    then have "db = butlast db @ [last db]" by simp
    then have "map max_equity_of db = map max_equity_of (butlast db) @ [max_equity_of (last db)]"
      by (metis list.simps(8,9) map_append)
    then show ?thesis using False by (simp add: set_cash_balance_def max_equity_of_def)
  qed
  then show ?thesis using CashUpdate assms by simp
next
  case (ApiRead now)
  then show ?thesis using assms by (simp add: get_risk_metrics_def)
qed

lemma run_sorted:
  "sorted (map max_equity_of db) \<Longrightarrow> sorted (map max_equity_of (fold apply_event es db))"
  by (induction es arbitrary: db) (simp_all add: apply_event_sorted)

text \<open>
  C9. Every call of \<open>update_risk_metrics\<close> appends one snapshot whose \<open>max_equity\<close> is the
  maximum of the previous snapshot's \<open>max_equity\<close> (10000 when there is none) and the newly
  computed total equity. Hence, in a tenant's history built from an empty collection by
  updates, cash-balance writes and API reads in any order, \<open>max_equity\<close> never decreases
  from one snapshot to the next.
\<close>

theorem risk_snapshot_max_equity_monotone:
  "(\<exists>m. update_risk_metrics positions now db = db @ [m] \<and>
        max_equity m = Some (max (if db = [] then 10000 else max_equity_of (last db))
                                (new_total_equity positions db))) \<and>
   (Suc i < length (fold apply_event es []) \<longrightarrow>
      max_equity_of (fold apply_event es [] ! i) \<le> max_equity_of (fold apply_event es [] ! Suc i))"
proof (intro conjI impI)
  show "\<exists>m. update_risk_metrics positions now db = db @ [m] \<and>
        max_equity m = Some (max (if db = [] then 10000 else max_equity_of (last db))
                                (new_total_equity positions db))"
    by (rule update_step)
next
  assume i: "Suc i < length (fold apply_event es [])"
  have "sorted (map max_equity_of (fold apply_event es []))"
    by (rule run_sorted) simp
  then have "map max_equity_of (fold apply_event es []) ! i
      \<le> map max_equity_of (fold apply_event es []) ! Suc i"
    using i by (intro sorted_nth_mono) simp_all
  then show "max_equity_of (fold apply_event es [] ! i)
      \<le> max_equity_of (fold apply_event es [] ! Suc i)"
    using i by simp
qed

theorem risk_snapshot_max_equity_monotone_witness:
  "map max_equity (fold apply_event example_history []) = [Some 10000, Some 10500, Some 11500] \<and>
   Suc 1 < length (fold apply_event example_history []) \<and>
   max_equity_of (fold apply_event example_history [] ! 1)
     \<le> max_equity_of (fold apply_event example_history [] ! Suc 1)"
proof -
  have h: "map max_equity (fold apply_event example_history []) = [Some 10000, Some 10500, Some 11500]"
    by (simp add: example_history_def update_risk_metrics_def set_cash_balance_def
        get_risk_metrics_def default_metrics_def btc_position_def get_or_def Let_def)
  then have "length (map max_equity (fold apply_event example_history [])) = 3" by simp
  then have l: "Suc 1 < length (fold apply_event example_history [])" by simp
  show ?thesis
    using h l risk_snapshot_max_equity_monotone [of "[]" 0 "[]" 1 example_history] by simp
qed

section \<open>Entry and exit decisions\<close>

lemma check_buy_signal_never_trades:
  "check_buy_signal self symbol an rm current_price all_positions st = Inr st' \<Longrightarrow>
   submitted_orders st' = submitted_orders st \<and> db_trades st' = db_trades st \<and>
   db_positions st' = db_positions st \<and> db_risk_metrics st' = db_risk_metrics st"
  by (auto simp: check_buy_signal_def Let_def split: if_splits sum.splits)

lemma opt_size_example:
  "calculate_optimal_position_size (4 / 5) (1 / 10) 10000 (3 / 100) (3 / 20) = Inr 160"
proof -
  have r: "py_round 160 2 = 160"
    by (simp add: py_round_def round_half_even_def)
  show ?thesis
    by (simp add: calculate_optimal_position_size_def kelly_ratio_tenth Let_def r)
qed

lemma validate_example:
  "validate_trade default_risk_manager buy_analysis (default_metrics 0) =
    \<lparr>approved = True, v_floor_check = True, v_loss_check = True, v_confidence_check = True,
     v_signal_check = True, reason = ''All checks passed''\<rparr>"
  by (simp add: validate_trade_def check_capital_floor_def check_daily_loss_def
      get_rejection_reason_def default_risk_manager_def buy_analysis_def example_signal_def
      default_metrics_def get_or_def Let_def)

text \<open>
  C1 does not hold of the source: the engine never submits a BUY order. At this input the
  validation approves, the buy flag is set, the heat is 3%, the correlation check allows
  and the optimal size is 160, yet \<open>check_buy_signal\<close> submits no order, records no trade
  and no position, leaves the cash balance alone and logs "Trade not approved".
\<close>

theorem check_buy_signal_places_no_order:
  "approved (validate_trade (be_risk_manager example_engine) buy_analysis (default_metrics 0)) \<and>
   buy_recommendation buy_analysis = Some True \<and>
   an_portfolio_heat buy_analysis = Some \<lparr>heat_percent = Some 3\<rparr> \<and>
   allowed (check_correlation_risk ''BTC-USD'' [] (price_history_cache example_engine)) \<and>
   calculate_optimal_position_size (4 / 5) (1 / 10) 10000 (3 / 100) (3 / 20) = Inr 160 \<and>
   check_buy_signal example_engine ''BTC-USD'' buy_analysis (default_metrics 0) 45000 [] flat_state
     = Inr (flat_state\<lparr>log := [TradeNotApproved ''BTC-USD'' ''All checks passed'']\<rparr>)"
proof -
  have v: "validate_trade (be_risk_manager example_engine) buy_analysis (default_metrics 0) =
    \<lparr>approved = True, v_floor_check = True, v_loss_check = True, v_confidence_check = True,
     v_signal_check = True, reason = ''All checks passed''\<rparr>"
    using validate_example by (simp add: example_engine_def)
  have c: "check_correlation_risk ''BTC-USD'' [] (price_history_cache example_engine) =
     \<lparr>allowed = True, max_correlation = 0, correlated_with = None\<rparr>"
    by (simp add: check_correlation_risk_def)
  have a: "buy_recommendation buy_analysis = Some True"
      "an_portfolio_heat buy_analysis = Some \<lparr>heat_percent = Some 3\<rparr>"
      "confidence buy_analysis = Some 80"
    by (simp_all add: buy_analysis_def example_signal_def)
  have t: "total_equity (default_metrics 0) = Some 10000" by (simp add: default_metrics_def)
  have f: "log flat_state = []" by (simp add: flat_state_def)
  show ?thesis
    by (simp add: check_buy_signal_def v c a t f get_or_def opt_size_example Let_def)
qed

lemma exit_rules_time_override:
  "24 < hours_held \<Longrightarrow> pnl_percent < 2 \<Longrightarrow>
   exit_rules pnl_percent drawdown_from_high rsi regime an ts hours_held = (True, TimeBasedExit)"
  by (simp add: exit_rules_def Let_def split: prod.split)

lemma exit_example:
  "exit_rules (- 5) 5 40 ''ranging'' hold_analysis hold_signals 25 = (True, TimeBasedExit)"
  by (rule exit_rules_time_override) simp_all

text \<open>
  C2 does not hold of the source: the time-based rule (h) is not part of the chain, so it
  overrides the reason of an earlier rule. Here the position is down 5%, so the hard stop
  (c) matches, and it has been held for 25 hours: the recorded reason is the time-based
  exit, not the stop loss.
\<close>

theorem check_sell_signal_time_rule_overrides:
  "pos_quantity losing_position / pos_avg_price losing_position * 43700 - pos_quantity losing_position
     = - 25 \<and>
   (\<exists>st'. check_sell_signal example_engine ''BTC-USD'' losing_position hold_analysis 43700
           hold_signals 90000 holding_state = Inr st' \<and>
         map tr_ai_reasoning (db_trades st') = [ExitReasoning TimeBasedExit] \<and>
         map tr_ai_reasoning (db_trades st') \<noteq> [ExitReasoning StopLoss])"
proof -
  have p: "pos_quantity losing_position = 500" "pos_avg_price losing_position = 46000"
      "pos_high_water_mark losing_position = None" "pos_created_at losing_position = 0"
    by (simp_all add: losing_position_def btc_position_def)
  have a: "an_technical_indicators hold_analysis
             = Some \<lparr>ti_rsi = Some 40, ti_regime = Some ''ranging''\<rparr>"
    by (simp add: hold_analysis_def)
  have e: "place_market_order example_engine ''BTC-USD'' ''SELL'' 500
             = \<lparr>success = True, filled_price = None\<rparr>"
    by (simp add: example_engine_def)
  have s: "db_risk_metrics holding_state = [default_metrics 0]" "db_trades holding_state = []"
    by (simp_all add: holding_state_def flat_state_def)
  show ?thesis
    by (simp add: check_sell_signal_def p a e s get_or_def exit_example Let_def)
qed

section \<open>Pending order status\<close>


lemma keys_dict_mutate: "fst ` set (dict_mutate k v d) = fst ` set d"
  by (force simp: dict_mutate_def split: if_splits)


lemma trigger_symbol: "ord_symbol (fst (trigger order p)) = ord_symbol order"
  by (simp add: trigger_def split: order_kind.split)









lemma place_order_known:
  "known_ids (place_order order self) = insert (ord_id order) (known_ids self)"
  by (auto simp: place_order_def known_ids_def dict_set_def keys_dict_mutate)






























end
